theory Spec2Isabelle
  imports Complex_Main "HOL-Library.Signed_Division"
begin

section \<open>Go values: errors, panics, machine integers, strings\<close>

text \<open>
  The two source files are \<^verbatim>\<open>providers/supermicro/supermicrox/supermicrox.go\<close> and
  \<^verbatim>\<open>providers/hp/c7000/xmlhelpers.go\<close>. Every Go \<^verbatim>\<open>error\<close> value that the code can
  return is a value of the datatype \<open>error\<close>; a nil error is \<open>None\<close>.
\<close>

datatype numerr = ErrSyntax | ErrRange

datatype error =
    ErrPageNotFound
  | ErrInvalidSerial
  | ErrUnableToReadData
  | ErrNotImplemented
  | ErrLogin string
  | ErrTransport string
  | ErrDecode string
  | NumError string string numerr
  | Errorf string
  | ErrChassis string string "string option list"

text \<open>
  A Go call either returns or panics (a nil pointer dereference unwinds the stack; it is
  not an \<^verbatim>\<open>error\<close> value).
\<close>

datatype 'a outcome = Panic | Return 'a

text \<open>
  Go's \<^verbatim>\<open>int\<close> is taken at 64 bits: a value is an integer in \<open>[-2^63, 2^63)\<close>, addition
  wraps around (\<open>wrap64\<close>), and \<^verbatim>\<open>/\<close> truncates towards zero (\<open>sdiv\<close>).
\<close>

definition wrap64 :: "int \<Rightarrow> int" where
  "wrap64 x = (x + 9223372036854775808) mod 18446744073709551616 - 9223372036854775808"

text \<open>
  Strings are byte lists. \<^verbatim>\<open>strings.ToLower\<close> is modelled on ASCII, where it maps
  \<^verbatim>\<open>A..Z\<close> to \<^verbatim>\<open>a..z\<close> and leaves every other byte alone.
\<close>

definition lower_char :: "char \<Rightarrow> char" where
  "lower_char c =
     (if (65::int) \<le> of_char c \<and> of_char c \<le> (90::int)
      then char_of (of_char c + (32::int)) else c)"

definition ToLower :: "string \<Rightarrow> string" where
  "ToLower s = map lower_char s"

text \<open>\<^verbatim>\<open>strings.HasSuffix\<close> and \<^verbatim>\<open>strings.TrimSuffix\<close>.\<close>

definition HasSuffix :: "string \<Rightarrow> string \<Rightarrow> bool" where
  "HasSuffix s suffix =
     (length suffix \<le> length s \<and> drop (length s - length suffix) s = suffix)"

definition TrimSuffix :: "string \<Rightarrow> string \<Rightarrow> string" where
  "TrimSuffix s suffix =
     (if HasSuffix s suffix then take (length s - length suffix) s else s)"

text \<open>
  \<^verbatim>\<open>strconv.Atoi\<close>: an optional sign, then decimal digits read left to right. The first
  byte that is no digit is a syntax error; a value that leaves the range is a range
  error, found at the digit where the unsigned accumulator overflows or, at the end,
  against the signed bounds. On a range error the clamped value is returned with it.
\<close>

definition is_digit :: "char \<Rightarrow> bool" where
  "is_digit c = ((48::int) \<le> of_char c \<and> of_char c \<le> (57::int))"

definition digit_val :: "char \<Rightarrow> int" where
  "digit_val c = of_char c - 48"

text \<open>
  The digit loop of \<^verbatim>\<open>strconv.ParseUint\<close> in base 10 at 64 bits:
  \<open>1844674407370955162\<close> is its cutoff \<open>2^64 div 10 + 1\<close> and
  \<open>18446744073709551615\<close> is \<open>2^64 - 1\<close>.
\<close>

fun ParseUint_digits :: "int \<Rightarrow> string \<Rightarrow> numerr + int" where
  "ParseUint_digits n [] = Inr n"
| "ParseUint_digits n (c # cs) =
     (if \<not> is_digit c then Inl ErrSyntax
      else if n \<ge> 1844674407370955162 then Inl ErrRange
      else if n * 10 + digit_val c > 18446744073709551615 then Inl ErrRange
      else ParseUint_digits (n * 10 + digit_val c) cs)"

text \<open>
  \<open>9223372036854775808\<close> is \<open>2^63\<close>, the cutoff of \<^verbatim>\<open>strconv.ParseInt\<close>.
\<close>

definition Atoi :: "string \<Rightarrow> int \<times> error option" where
  "Atoi s =
     (let neg = (s \<noteq> [] \<and> hd s = CHR ''-'');
          ds = (if s \<noteq> [] \<and> (hd s = CHR ''+'' \<or> hd s = CHR ''-'') then tl s else s)
      in if ds = [] then (0, Some (NumError ''Atoi'' s ErrSyntax))
         else case ParseUint_digits 0 ds of
             Inl ErrSyntax \<Rightarrow> (0, Some (NumError ''Atoi'' s ErrSyntax))
           | Inl ErrRange \<Rightarrow>
               (if neg then - 9223372036854775808 else 9223372036854775807,
                Some (NumError ''Atoi'' s ErrRange))
           | Inr un \<Rightarrow>
               if \<not> neg \<and> un \<ge> 9223372036854775808
               then (9223372036854775807, Some (NumError ''Atoi'' s ErrRange))
               else if neg \<and> un > 9223372036854775808
               then (- 9223372036854775808, Some (NumError ''Atoi'' s ErrRange))
               else (if neg then - un else un, None))"

section \<open>The decoded vendor documents\<close>

text \<open>
  Package \<^verbatim>\<open>supermicro\<close> declares the document type \<^verbatim>\<open>IPMI\<close> that \<^verbatim>\<open>xml.Unmarshal\<close>
  fills; the records below have the members that \<^verbatim>\<open>supermicrox.go\<close> reads, each field
  named \<open>Struct_Member\<close>. A member that the source compares with \<^verbatim>\<open>nil\<close> is a pointer
  and becomes an \<open>option\<close>; a member that it ranges over is a slice and becomes a list.
  \<^verbatim>\<open>PowerInfo.Power\<close> is read without a check (\<^verbatim>\<open>ipmi.PowerInfo.Power.Status\<close>); it is
  taken to be a pointer like the other sub-elements, so that its absence is a branch of
  the model (a nil dereference) and not silently a zero value.
\<close>

record Board =
  Board_SerialNum :: string
  Board_PartNum :: string

record FruInfo =
  FruInfo_Board :: "Board option"

record Generic =
  Generic_IpmiFwVersion :: string
  Generic_BmcMac :: string

record GenericInfo =
  GenericInfo_IpmiFwVersion :: string
  GenericInfo_BmcMac :: string
  GenericInfo_Generic :: "Generic option"

record Hostname =
  Hostname_Name :: string

record ConfigInfo =
  ConfigInfo_Hostname :: "Hostname option"

record HealthInfo =
  HealthInfo_Health :: string

record Dimm =
  Dimm_Size :: string

record CPU =
  CPU_Version :: string
  CPU_Core :: string

record Bios =
  Bios_Version :: string

record Node =
  Node_ID :: int
  Node_NodeSerial :: string
  Node_Power :: string
  Node_SystemTemp :: string

record NodeInfo =
  NodeInfo_Nodes :: "Node list"

record Power =
  Power_Status :: string

record PowerInfo =
  PowerInfo_Power :: "Power option"

record PlatformInfo =
  PlatformInfo_MbMacAddr1 :: string
  PlatformInfo_MbMacAddr2 :: string
  PlatformInfo_MbMacAddr3 :: string
  PlatformInfo_MbMacAddr4 :: string

record BiosLicense =
  BiosLicense_Check :: string

record IPMI =
  IPMI_Bios :: "Bios option"
  IPMI_CPU :: "CPU list"
  IPMI_ConfigInfo :: "ConfigInfo option"
  IPMI_Dimm :: "Dimm list"
  IPMI_FruInfo :: "FruInfo option"
  IPMI_GenericInfo :: "GenericInfo option"
  IPMI_PlatformInfo :: "PlatformInfo option"
  IPMI_PowerInfo :: "PowerInfo option"
  IPMI_NodeInfo :: "NodeInfo option"
  IPMI_BiosLicense :: "BiosLicense option"
  IPMI_HealthInfo :: "HealthInfo option"

text \<open>
  \<^verbatim>\<open>ChassisInfo\<close> (lines 46-55): the Redfish chassis answer with its error object. The
  extended messages are pointers to a struct with the one member \<^verbatim>\<open>MessageId\<close>; a JSON
  \<^verbatim>\<open>null\<close> entry decodes to a nil pointer.
\<close>

record ChassisInfo =
  ChassisInfo_SerialNumber :: string
  ChassisInfo_Error_Code :: string
  ChassisInfo_Error_Message :: string
  ChassisInfo_Error_ExtendedMessage :: "string option list"

section \<open>The connection and the outside world\<close>

record SupermicroX =
  ip :: string
  username :: string
  password :: string

record Cookie =
  Cookie_Name :: string
  Cookie_Value :: string

record Request =
  Request_Method :: string
  Request_URL :: string
  Request_ContentType :: "string option"
  Request_Cookies :: "Cookie list"
  Request_BasicAuth :: "(string \<times> string) option"
  Request_Body :: string

text \<open>
  A response is its status code and what \<^verbatim>\<open>ioutil.ReadAll(resp.Body)\<close> gives: the bytes
  of the body, or the error of a read that failed.
\<close>

record Response =
  Response_StatusCode :: int
  Response_Body :: "error + string"

text \<open>
  What has gone over the wire so far is the state that the calls thread: a login
  attempt, or a request handed to \<^verbatim>\<open>httpClient.Do\<close>.
\<close>

datatype event = Login | Sent Request

text \<open>
  Everything that the two files call and do not define is a member of \<open>world\<close>. The BMC
  and the network may answer the same request differently at different times, so each
  answer is a function of the events so far.
  \<^item> \<open>httpLogin\<close>: the method \<^verbatim>\<open>(*SupermicroX).httpLogin\<close>, declared in another file of the
    package; its result is the error it returns. A login that returns nil has set up
    \<^verbatim>\<open>s.httpClient\<close> with a cookie jar.
  \<^item> \<open>url_Parse\<close>: the error of \<^verbatim>\<open>url.Parse\<close>, which is also the one way in which
    \<^verbatim>\<open>http.NewRequest\<close> fails for the methods \<^verbatim>\<open>GET\<close> and \<^verbatim>\<open>POST\<close>.
  \<^item> \<open>Jar_Cookies\<close>: \<^verbatim>\<open>s.httpClient.Jar.Cookies(u)\<close>.
  \<^item> \<open>httpClient_Do\<close>: \<^verbatim>\<open>s.httpClient.Do(req)\<close>.
  \<^item> \<open>xml_Unmarshal\<close>, \<open>json_Unmarshal\<close>: the decoders; they fill the document they are
    given and return an error or nil.
  \<^item> \<open>StandardizeProcessorName\<close> of package \<^verbatim>\<open>httpclient\<close>, \<open>VendorID\<close> of package
    \<^verbatim>\<open>supermicro\<close>.
  Logging and request dumps have no effect on any result and are left out.
\<close>

record world =
  httpLogin :: "event list \<Rightarrow> error option"
  url_Parse :: "string \<Rightarrow> error option"
  Jar_Cookies :: "event list \<Rightarrow> string \<Rightarrow> Cookie list"
  httpClient_Do :: "event list \<Rightarrow> Request \<Rightarrow> error + Response"
  xml_Unmarshal :: "string \<Rightarrow> IPMI \<times> error option"
  json_Unmarshal :: "string \<Rightarrow> ChassisInfo \<times> error option"
  StandardizeProcessorName :: "string \<Rightarrow> string"
  VendorID :: string

text \<open>
  A method of the connection is a function from the events so far to its outcome and the
  events after it.
\<close>

type_synonym 'a go = "event list \<Rightarrow> 'a outcome \<times> event list"

definition go_return :: "'a \<Rightarrow> 'a go" where
  "go_return a = (\<lambda>t. (Return a, t))"

definition go_panic :: "'a go" where
  "go_panic = (\<lambda>t. (Panic, t))"

definition go_bind :: "'a go \<Rightarrow> ('a \<Rightarrow> 'b go) \<Rightarrow> 'b go" where
  "go_bind m k = (\<lambda>t. case m t of (Panic, t') \<Rightarrow> (Panic, t') | (Return a, t') \<Rightarrow> k a t')"

definition call_httpLogin :: "world \<Rightarrow> (error option) go" where
  "call_httpLogin w = (\<lambda>t. (Return (httpLogin w t), t @ [Login]))"

definition call_Do :: "world \<Rightarrow> Request \<Rightarrow> (error + Response) go" where
  "call_Do w req = (\<lambda>t. (Return (httpClient_Do w t req), t @ [Sent req]))"

text \<open>
  The loop that copies the session cookie of the jar into the request:
  \<^verbatim>\<open>if cookie.Name == "SID" && cookie.Value != "" { req.AddCookie(cookie) }\<close>.
\<close>

definition SID_cookies :: "Cookie list \<Rightarrow> Cookie list" where
  "SID_cookies jar =
     filter (\<lambda>cookie. Cookie_Name cookie = ''SID'' \<and> Cookie_Value cookie \<noteq> []) jar"

definition session_cookies :: "world \<Rightarrow> string \<Rightarrow> (Cookie list) go" where
  "session_cookies w u = (\<lambda>t. (Return (SID_cookies (Jar_Cookies w t u)), t))"

section \<open>The form/XML codec: \<^verbatim>\<open>get\<close> and \<^verbatim>\<open>query\<close>\<close>

text \<open>
  \<^verbatim>\<open>get\<close> (lines 98-147). \<open>get_request\<close> is the request of lines 105-123, with the
  cookies that the loop added. The payload is \<open>None\<close> where the source returns \<^verbatim>\<open>nil\<close>.
\<close>

definition get_request :: "SupermicroX \<Rightarrow> string \<Rightarrow> bool \<Rightarrow> Cookie list \<Rightarrow> Request" where
  "get_request s endpoint authentication cookies =
     \<lparr>Request_Method = ''GET'',
      Request_URL = ''https://'' @ ip s @ ''/'' @ endpoint,
      Request_ContentType = None,
      Request_Cookies = cookies,
      Request_BasicAuth = (if authentication then Some (username s, password s) else None),
      Request_Body = []\<rparr>"

definition get :: "world \<Rightarrow> SupermicroX \<Rightarrow> string \<Rightarrow> bool \<Rightarrow> (string option \<times> error option) go" where
  "get w s endpoint authentication =
     go_bind (call_httpLogin w) (\<lambda>err.
       case err of Some e \<Rightarrow> go_return (None, Some e)
       | None \<Rightarrow>
         let bmcURL = ''https://'' @ ip s in
         case url_Parse w (bmcURL @ ''/'' @ endpoint) of Some e \<Rightarrow> go_return (None, Some e)
         | None \<Rightarrow>
           (case url_Parse w bmcURL of Some e \<Rightarrow> go_return (None, Some e)
            | None \<Rightarrow>
              go_bind (session_cookies w bmcURL) (\<lambda>cookies.
              go_bind (call_Do w (get_request s endpoint authentication cookies)) (\<lambda>r.
                case r of Inl e \<Rightarrow> go_return (None, Some e)
                | Inr resp \<Rightarrow>
                  (case Response_Body resp of Inl e \<Rightarrow> go_return (None, Some e)
                   | Inr payload \<Rightarrow>
                     if Response_StatusCode resp = 404 then go_return (None, Some ErrPageNotFound)
                     else go_return (Some payload, None))))))"

text \<open>
  \<^verbatim>\<open>query\<close> (lines 205-252). \<open>query_request\<close> is the request of lines 214-227. The
  document pointer \<^verbatim>\<open>ipmi\<close> is nil (\<open>None\<close>) on every return before line 245 and points
  to the document that the decoder filled after it, also when the decoder failed.
\<close>

definition query_request :: "SupermicroX \<Rightarrow> string \<Rightarrow> Cookie list \<Rightarrow> Request" where
  "query_request s requestType cookies =
     \<lparr>Request_Method = ''POST'',
      Request_URL = ''https://'' @ ip s @ ''/cgi/ipmi.cgi'',
      Request_ContentType = Some ''application/x-www-form-urlencoded'',
      Request_Cookies = cookies,
      Request_BasicAuth = None,
      Request_Body = requestType\<rparr>"

definition query :: "world \<Rightarrow> SupermicroX \<Rightarrow> string \<Rightarrow> (IPMI option \<times> error option) go" where
  "query w s requestType =
     go_bind (call_httpLogin w) (\<lambda>err.
       case err of Some e \<Rightarrow> go_return (None, Some e)
       | None \<Rightarrow>
         let bmcURL = ''https://'' @ ip s @ ''/cgi/ipmi.cgi'' in
         case url_Parse w bmcURL of Some e \<Rightarrow> go_return (None, Some e)
         | None \<Rightarrow>
           (case url_Parse w bmcURL of Some e \<Rightarrow> go_return (None, Some e)
            | None \<Rightarrow>
              go_bind (session_cookies w bmcURL) (\<lambda>cookies.
              go_bind (call_Do w (query_request s requestType cookies)) (\<lambda>r.
                case r of Inl e \<Rightarrow> go_return (None, Some e)
                | Inr resp \<Rightarrow>
                  (case Response_Body resp of Inl e \<Rightarrow> go_return (None, Some e)
                   | Inr payload \<Rightarrow>
                     go_return (Some (fst (xml_Unmarshal w payload)),
                                snd (xml_Unmarshal w payload)))))))"

section \<open>The accessors\<close>

text \<open>
  Each accessor returns its values and an error, as the Go method does. Where the source
  reads a member through the document pointer, a nil pointer is a panic.
\<close>

text \<open>\<^verbatim>\<open>Serial\<close> (lines 255-266).\<close>

definition Serial :: "world \<Rightarrow> SupermicroX \<Rightarrow> (string \<times> error option) go" where
  "Serial w s =
     go_bind (query w s ''FRU_INFO.XML=(0,0)'') (\<lambda>(ipmi, err).
       case err of Some e \<Rightarrow> go_return ([], Some e)
       | None \<Rightarrow>
         (case ipmi of None \<Rightarrow> go_panic
          | Some doc \<Rightarrow>
            (case IPMI_FruInfo doc of None \<Rightarrow> go_return ([], Some ErrInvalidSerial)
             | Some fru \<Rightarrow>
               (case FruInfo_Board fru of None \<Rightarrow> go_return ([], Some ErrInvalidSerial)
                | Some board \<Rightarrow> go_return (ToLower (Board_SerialNum board), None)))))"

text \<open>
  \<^verbatim>\<open>ChassisSerial\<close> (lines 269-290). The error of line 286 is kept as the code, the message
  and the extended messages that its text is built from; the formatting by package
  \<^verbatim>\<open>fmt\<close> is not modelled.
\<close>

definition ChassisSerial :: "world \<Rightarrow> SupermicroX \<Rightarrow> (string \<times> error option) go" where
  "ChassisSerial w s =
     go_bind (get w s ''redfish/v1/Chassis/1'' True) (\<lambda>(payload, err).
       case err of Some e \<Rightarrow> go_return ([], Some e)
       | None \<Rightarrow>
         (case json_Unmarshal w (case payload of None \<Rightarrow> [] | Some b \<Rightarrow> b) of
            (chassisInfo, Some e) \<Rightarrow> go_return ([], Some e)
          | (chassisInfo, None) \<Rightarrow>
              if ChassisInfo_Error_Code chassisInfo \<noteq> []
              then go_return ([], Some (ErrChassis (ChassisInfo_Error_Code chassisInfo)
                                         (ChassisInfo_Error_Message chassisInfo)
                                         (ChassisInfo_Error_ExtendedMessage chassisInfo)))
              else go_return (ToLower (ChassisInfo_SerialNumber chassisInfo), None)))"

text \<open>\<^verbatim>\<open>Model\<close> (lines 306-317) and \<^verbatim>\<open>HardwareType\<close> (lines 295-303), which drops its error.\<close>

definition Model :: "world \<Rightarrow> SupermicroX \<Rightarrow> (string \<times> error option) go" where
  "Model w s =
     go_bind (query w s ''FRU_INFO.XML=(0,0)'') (\<lambda>(ipmi, err).
       case err of Some e \<Rightarrow> go_return ([], Some e)
       | None \<Rightarrow>
         (case ipmi of None \<Rightarrow> go_panic
          | Some doc \<Rightarrow>
            (case IPMI_FruInfo doc of
               None \<Rightarrow> go_return ([], Some (Errorf ''SupermicroX Model(): Model not found!''))
             | Some fru \<Rightarrow>
               (case FruInfo_Board fru of
                  None \<Rightarrow> go_return ([], Some (Errorf ''SupermicroX Model(): Model not found!''))
                | Some board \<Rightarrow> go_return (Board_PartNum board, None)))))"

definition HardwareType :: "world \<Rightarrow> SupermicroX \<Rightarrow> string go" where
  "HardwareType w s =
     go_bind (Model w s) (\<lambda>(m, err).
       case err of Some e \<Rightarrow> go_return [] | None \<Rightarrow> go_return m)"

text \<open>\<^verbatim>\<open>Version\<close> (lines 320-335).\<close>

definition Version :: "world \<Rightarrow> SupermicroX \<Rightarrow> (string \<times> error option) go" where
  "Version w s =
     go_bind (query w s ''GENERIC_INFO.XML=(0,0)'') (\<lambda>(ipmi, err).
       case err of Some e \<Rightarrow> go_return ([], Some e)
       | None \<Rightarrow>
         (case ipmi of None \<Rightarrow> go_panic
          | Some doc \<Rightarrow>
            (case IPMI_GenericInfo doc of None \<Rightarrow> go_return ([], None)
             | Some gi \<Rightarrow>
               if GenericInfo_IpmiFwVersion gi \<noteq> []
               then go_return (GenericInfo_IpmiFwVersion gi, None)
               else (case GenericInfo_Generic gi of None \<Rightarrow> go_return ([], None)
                     | Some g \<Rightarrow> go_return (Generic_IpmiFwVersion g, None)))))"

text \<open>\<^verbatim>\<open>Name\<close> (lines 338-349).\<close>

definition Name :: "world \<Rightarrow> SupermicroX \<Rightarrow> (string \<times> error option) go" where
  "Name w s =
     go_bind (query w s ''CONFIG_INFO.XML=(0,0)'') (\<lambda>(ipmi, err).
       case err of Some e \<Rightarrow> go_return ([], Some e)
       | None \<Rightarrow>
         (case ipmi of None \<Rightarrow> go_panic
          | Some doc \<Rightarrow>
            (case IPMI_ConfigInfo doc of None \<Rightarrow> go_return ([], None)
             | Some ci \<Rightarrow>
               (case ConfigInfo_Hostname ci of None \<Rightarrow> go_return ([], None)
                | Some h \<Rightarrow> go_return (Hostname_Name h, None)))))"

text \<open>\<^verbatim>\<open>Status\<close> (lines 352-363).\<close>

definition Status :: "world \<Rightarrow> SupermicroX \<Rightarrow> (string \<times> error option) go" where
  "Status w s =
     go_bind (query w s ''SENSOR_INFO_FOR_SYS_HEALTH.XML=(1,ff)'') (\<lambda>(ipmi, err).
       case err of Some e \<Rightarrow> go_return ([], Some e)
       | None \<Rightarrow>
         (case ipmi of None \<Rightarrow> go_panic
          | Some doc \<Rightarrow>
            (case IPMI_HealthInfo doc of None \<Rightarrow> go_return (''Unhealthy'', None)
             | Some hi \<Rightarrow>
               if HealthInfo_Health hi = ''1'' then go_return (''OK'', None)
               else go_return (''Unhealthy'', None))))"

text \<open>
  \<^verbatim>\<open>Memory\<close> (lines 366-379). The error of the query is not looked at before the loop
  ranges over \<^verbatim>\<open>ipmi.Dimm\<close>. The loop either leaves the method with the sum so far and the
  error of \<^verbatim>\<open>strconv.Atoi\<close> (\<open>Inl\<close>), or ends with the sum (\<open>Inr\<close>).
\<close>

fun Memory_loop :: "int \<Rightarrow> Dimm list \<Rightarrow> (int \<times> error option) + int" where
  "Memory_loop mem [] = Inr mem"
| "Memory_loop mem (dimm # rest) =
     (case Atoi (TrimSuffix (Dimm_Size dimm) '' MB'') of
        (sz, Some e) \<Rightarrow> Inl (mem, Some e)
      | (sz, None) \<Rightarrow> Memory_loop (wrap64 (mem + sz)) rest)"

definition Memory :: "world \<Rightarrow> SupermicroX \<Rightarrow> (int \<times> error option) go" where
  "Memory w s =
     go_bind (query w s ''SMBIOS_INFO.XML=(0,0)'') (\<lambda>(ipmi, err).
       case ipmi of None \<Rightarrow> go_panic
       | Some doc \<Rightarrow>
         (case Memory_loop 0 (IPMI_Dimm doc) of
            Inl r \<Rightarrow> go_return r
          | Inr mem \<Rightarrow> go_return (mem sdiv 1024, err)))"

text \<open>
  \<^verbatim>\<open>CPU\<close> (lines 382-403): the name, the processor count, the core count and the thread
  count.
\<close>

definition CPU :: "world \<Rightarrow> SupermicroX \<Rightarrow> ((string \<times> int \<times> int \<times> int) \<times> error option) go" where
  "CPU w s =
     go_bind (query w s ''SMBIOS_INFO.XML=(0,0)'') (\<lambda>(ipmi, err).
       case err of Some e \<Rightarrow> go_return (([], 0, 0, 0), Some e)
       | None \<Rightarrow>
         (case ipmi of None \<Rightarrow> go_panic
          | Some doc \<Rightarrow>
            (case IPMI_CPU doc of [] \<Rightarrow> go_return (([], 0, 0, 0), None)
             | entry # others \<Rightarrow>
               let cpu = StandardizeProcessorName w (CPU_Version entry);
                   cpuCount = int (length (IPMI_CPU doc))
               in (case Atoi (CPU_Core entry) of
                     (coreCount, Some e) \<Rightarrow> go_return ((cpu, cpuCount, 0, 0), Some e)
                   | (coreCount, None) \<Rightarrow>
                       go_return ((cpu, cpuCount, coreCount, coreCount), None)))))"

text \<open>\<^verbatim>\<open>BiosVersion\<close> (lines 406-417).\<close>

definition BiosVersion :: "world \<Rightarrow> SupermicroX \<Rightarrow> (string \<times> error option) go" where
  "BiosVersion w s =
     go_bind (query w s ''SMBIOS_INFO.XML=(0,0)'') (\<lambda>(ipmi, err).
       case err of Some e \<Rightarrow> go_return ([], Some e)
       | None \<Rightarrow>
         (case ipmi of None \<Rightarrow> go_panic
          | Some doc \<Rightarrow>
            (case IPMI_Bios doc of None \<Rightarrow> go_return ([], None)
             | Some b \<Rightarrow> go_return (Bios_Version b, None))))"

text \<open>
  \<^verbatim>\<open>PowerKw\<close> (lines 420-444). The \<^verbatim>\<open>float64\<close> result is the real number it stands for:
  \<^verbatim>\<open>float64(value) / 1000.00\<close> is the quotient, and the rounding of the quotient to the
  nearest double is not modelled. The loop returns from the method at the first node
  whose lower-cased serial is the device's (\<open>Some\<close>), or runs to its end (\<open>None\<close>).
\<close>

fun PowerKw_loop :: "string \<Rightarrow> Node list \<Rightarrow> (real \<times> error option) option" where
  "PowerKw_loop serial [] = None"
| "PowerKw_loop serial (node # rest) =
     (if ToLower (Node_NodeSerial node) = serial
      then (case Atoi (Node_Power node) of
              (val, Some e) \<Rightarrow> Some (0, Some e)
            | (val, None) \<Rightarrow> Some (real_of_int val / 1000, None))
      else PowerKw_loop serial rest)"

definition PowerKw :: "world \<Rightarrow> SupermicroX \<Rightarrow> (real \<times> error option) go" where
  "PowerKw w s =
     go_bind (query w s ''Get_NodeInfoReadings.XML=(0,0)'') (\<lambda>(ipmi, err).
       case err of Some e \<Rightarrow> go_return (0, Some e)
       | None \<Rightarrow>
         (case ipmi of None \<Rightarrow> go_panic
          | Some doc \<Rightarrow>
            (case IPMI_NodeInfo doc of None \<Rightarrow> go_return (0, None)
             | Some ni \<Rightarrow>
               go_bind (Serial w s) (\<lambda>(serial, err).
                 case err of Some e \<Rightarrow> go_return (0, Some e)
                 | None \<Rightarrow>
                   (case PowerKw_loop serial (NodeInfo_Nodes ni) of
                      Some r \<Rightarrow> go_return r
                    | None \<Rightarrow> go_return (0, None))))))"

text \<open>\<^verbatim>\<open>PowerState\<close> (lines 447-458).\<close>

definition PowerState :: "world \<Rightarrow> SupermicroX \<Rightarrow> (string \<times> error option) go" where
  "PowerState w s =
     go_bind (query w s ''POWER_INFO.XML=(0,0)'') (\<lambda>(ipmi, err).
       case err of Some e \<Rightarrow> go_return ([], Some e)
       | None \<Rightarrow>
         (case ipmi of None \<Rightarrow> go_panic
          | Some doc \<Rightarrow>
            (case IPMI_PowerInfo doc of None \<Rightarrow> go_return (''unknow'', None)
             | Some pinfo \<Rightarrow>
               (case PowerInfo_Power pinfo of None \<Rightarrow> go_panic
                | Some p \<Rightarrow> go_return (ToLower (Power_Status p), None)))))"

text \<open>
  \<^verbatim>\<open>TempC\<close> (lines 461-485). On a parse error the loop returns the value that
  \<^verbatim>\<open>strconv.Atoi\<close> gave together with the error.
\<close>

fun TempC_loop :: "string \<Rightarrow> Node list \<Rightarrow> (int \<times> error option) option" where
  "TempC_loop serial [] = None"
| "TempC_loop serial (node # rest) =
     (if ToLower (Node_NodeSerial node) = serial
      then Some (Atoi (Node_SystemTemp node))
      else TempC_loop serial rest)"

definition TempC :: "world \<Rightarrow> SupermicroX \<Rightarrow> (int \<times> error option) go" where
  "TempC w s =
     go_bind (query w s ''Get_NodeInfoReadings.XML=(0,0)'') (\<lambda>(ipmi, err).
       case err of Some e \<Rightarrow> go_return (0, Some e)
       | None \<Rightarrow>
         (case ipmi of None \<Rightarrow> go_panic
          | Some doc \<Rightarrow>
            (case IPMI_NodeInfo doc of None \<Rightarrow> go_return (0, None)
             | Some ni \<Rightarrow>
               go_bind (Serial w s) (\<lambda>(serial, err).
                 case err of Some e \<Rightarrow> go_return (0, Some e)
                 | None \<Rightarrow>
                   (case TempC_loop serial (NodeInfo_Nodes ni) of
                      Some r \<Rightarrow> go_return r
                    | None \<Rightarrow> go_return (0, None))))))"

text \<open>\<^verbatim>\<open>IsBlade\<close> (lines 488-503).\<close>

fun IsBlade_loop :: "Node list \<Rightarrow> bool" where
  "IsBlade_loop [] = False"
| "IsBlade_loop (node # rest) = (if Node_NodeSerial node \<noteq> [] then True else IsBlade_loop rest)"

definition IsBlade :: "world \<Rightarrow> SupermicroX \<Rightarrow> (bool \<times> error option) go" where
  "IsBlade w s =
     go_bind (query w s ''Get_NodeInfoReadings.XML=(0,0)'') (\<lambda>(ipmi, err).
       case err of Some e \<Rightarrow> go_return (False, Some e)
       | None \<Rightarrow>
         (case ipmi of None \<Rightarrow> go_panic
          | Some doc \<Rightarrow>
            (case IPMI_NodeInfo doc of None \<Rightarrow> go_return (False, None)
             | Some ni \<Rightarrow> go_return (IsBlade_loop (NodeInfo_Nodes ni), None))))"

text \<open>\<^verbatim>\<open>Slot\<close> (lines 506-527): the loop has no early exit, the last matching node wins.\<close>

fun Slot_loop :: "string \<Rightarrow> int \<Rightarrow> Node list \<Rightarrow> int" where
  "Slot_loop serial slot [] = slot"
| "Slot_loop serial slot (node # rest) =
     (if ToLower (Node_NodeSerial node) = serial
      then Slot_loop serial (wrap64 (Node_ID node + 1)) rest
      else Slot_loop serial slot rest)"

definition Slot :: "world \<Rightarrow> SupermicroX \<Rightarrow> (int \<times> error option) go" where
  "Slot w s =
     go_bind (query w s ''Get_NodeInfoReadings.XML=(0,0)'') (\<lambda>(ipmi, err).
       case err of Some e \<Rightarrow> go_return (1, Some e)
       | None \<Rightarrow>
         (case ipmi of None \<Rightarrow> go_panic
          | Some doc \<Rightarrow>
            (case IPMI_NodeInfo doc of None \<Rightarrow> go_return (1, Some ErrUnableToReadData)
             | Some ni \<Rightarrow>
               go_bind (Serial w s) (\<lambda>(serial, err).
                 case err of Some e \<Rightarrow> go_return (1, Some e)
                 | None \<Rightarrow> go_return (Slot_loop serial 1 (NodeInfo_Nodes ni), None)))))"

text \<open>
  \<^verbatim>\<open>Nics\<close> (lines 530-593). The first document is read behind \<^verbatim>\<open>ipmi != nil\<close>, the second
  is not.
\<close>

record Nic =
  Nic_Name :: string
  Nic_MacAddress :: string

definition Nics :: "world \<Rightarrow> SupermicroX \<Rightarrow> (Nic list \<times> error option) go" where
  "Nics w s =
     go_bind (query w s ''GENERIC_INFO.XML=(0,0)'') (\<lambda>(ipmi, err).
       case err of Some e \<Rightarrow> go_return ([], Some e)
       | None \<Rightarrow>
         let nics =
           (case ipmi of None \<Rightarrow> []
            | Some doc \<Rightarrow>
              (case IPMI_GenericInfo doc of None \<Rightarrow> []
               | Some gi \<Rightarrow>
                 if GenericInfo_BmcMac gi \<noteq> []
                 then [\<lparr>Nic_Name = ''bmc'', Nic_MacAddress = GenericInfo_BmcMac gi\<rparr>]
                 else (case GenericInfo_Generic gi of None \<Rightarrow> []
                       | Some g \<Rightarrow> [\<lparr>Nic_Name = ''bmc'', Nic_MacAddress = Generic_BmcMac g\<rparr>])))
         in go_bind (query w s ''Get_PlatformInfo.XML=(0,0)'') (\<lambda>(ipmi, err).
              case err of Some e \<Rightarrow> go_return (nics, Some e)
              | None \<Rightarrow>
                (case ipmi of None \<Rightarrow> go_panic
                 | Some doc \<Rightarrow>
                   (case IPMI_PlatformInfo doc of None \<Rightarrow> go_return (nics, None)
                    | Some pf \<Rightarrow>
                      go_return
                        (nics
                         @ (if PlatformInfo_MbMacAddr1 pf \<noteq> []
                            then [\<lparr>Nic_Name = ''eth0'', Nic_MacAddress = PlatformInfo_MbMacAddr1 pf\<rparr>]
                            else [])
                         @ (if PlatformInfo_MbMacAddr2 pf \<noteq> []
                            then [\<lparr>Nic_Name = ''eth1'', Nic_MacAddress = PlatformInfo_MbMacAddr2 pf\<rparr>]
                            else [])
                         @ (if PlatformInfo_MbMacAddr3 pf \<noteq> []
                            then [\<lparr>Nic_Name = ''eth2'', Nic_MacAddress = PlatformInfo_MbMacAddr3 pf\<rparr>]
                            else [])
                         @ (if PlatformInfo_MbMacAddr4 pf \<noteq> []
                            then [\<lparr>Nic_Name = ''eth3'', Nic_MacAddress = PlatformInfo_MbMacAddr4 pf\<rparr>]
                            else []),
                         None)))))"

text \<open>\<^verbatim>\<open>License\<close> (lines 596-612): the name and the type of the licence.\<close>

definition License :: "world \<Rightarrow> SupermicroX \<Rightarrow> ((string \<times> string) \<times> error option) go" where
  "License w s =
     go_bind (query w s ''BIOS_LINCENSE_ACTIVATE.XML=(0,0)'') (\<lambda>(ipmi, err).
       case err of Some e \<Rightarrow> go_return (([], []), Some e)
       | None \<Rightarrow>
         (case ipmi of None \<Rightarrow> go_panic
          | Some doc \<Rightarrow>
            (case IPMI_BiosLicense doc of None \<Rightarrow> go_return (([], []), None)
             | Some bl \<Rightarrow>
               if BiosLicense_Check bl = ''0'' then go_return ((''oob'', ''Activated''), None)
               else if BiosLicense_Check bl = ''1''
               then go_return ((''oob'', ''Not Activated''), None)
               else go_return (([], []), None))))"

text \<open>
  \<^verbatim>\<open>Vendor\<close> (lines 615-617) and \<^verbatim>\<open>Disks\<close> (lines 762-764), which returns its zero results.
  No member of \<^verbatim>\<open>devices.Disk\<close> is ever read or written.
\<close>

type_synonym Disk = unit

definition Vendor :: "world \<Rightarrow> SupermicroX \<Rightarrow> string" where
  "Vendor w s = VendorID w"

definition Disks :: "world \<Rightarrow> SupermicroX \<Rightarrow> (Disk list \<times> error option) go" where
  "Disks w s = go_return ([], None)"

section \<open>The snapshot aggregator\<close>

text \<open>
  \<^verbatim>\<open>devices.Blade\<close> and \<^verbatim>\<open>devices.Discrete\<close> are declared in package \<^verbatim>\<open>devices\<close>; the records
  have the members that \<^verbatim>\<open>ServerSnapshot\<close> assigns. The result of type \<^verbatim>\<open>interface{}\<close> is
  nil (\<open>None\<close>) or one of the two.
\<close>

record Discrete =
  Discrete_Vendor :: string
  Discrete_BmcAddress :: string
  Discrete_BmcType :: string
  Discrete_Serial :: string
  Discrete_BmcVersion :: string
  Discrete_Model :: string
  Discrete_Nics :: "Nic list"
  Discrete_Disks :: "Disk list"
  Discrete_BiosVersion :: string
  Discrete_Processor :: string
  Discrete_ProcessorCount :: int
  Discrete_ProcessorCoreCount :: int
  Discrete_ProcessorThreadCount :: int
  Discrete_Memory :: int
  Discrete_Status :: string
  Discrete_Name :: string
  Discrete_TempC :: int
  Discrete_PowerKw :: real
  Discrete_PowerState :: string
  Discrete_BmcLicenceType :: string
  Discrete_BmcLicenceStatus :: string

record Blade =
  Blade_Vendor :: string
  Blade_BmcAddress :: string
  Blade_BmcType :: string
  Blade_Serial :: string
  Blade_BmcVersion :: string
  Blade_Model :: string
  Blade_Nics :: "Nic list"
  Blade_Disks :: "Disk list"
  Blade_BiosVersion :: string
  Blade_Processor :: string
  Blade_ProcessorCount :: int
  Blade_ProcessorCoreCount :: int
  Blade_ProcessorThreadCount :: int
  Blade_Memory :: int
  Blade_Status :: string
  Blade_Name :: string
  Blade_TempC :: int
  Blade_PowerKw :: real
  Blade_PowerState :: string
  Blade_BmcLicenceType :: string
  Blade_BmcLicenceStatus :: string
  Blade_BladePosition :: int
  Blade_ChassisSerial :: string

datatype server = BladeServer Blade | DiscreteServer Discrete

text \<open>
  The step that \<^verbatim>\<open>ServerSnapshot\<close> repeats after every accessor:
  \<^verbatim>\<open>x, err = s.F(); if err != nil { return nil, err }\<close>.
\<close>

definition or_return_nil ::
  "('a \<times> error option) go \<Rightarrow> ('a \<Rightarrow> (server option \<times> error option) go)
     \<Rightarrow> (server option \<times> error option) go" where
  "or_return_nil m k =
     go_bind m (\<lambda>(x, err). case err of Some e \<Rightarrow> go_return (None, Some e) | None \<Rightarrow> k x)"

text \<open>The branch of lines 623-692, taken when the probe says blade.\<close>

definition snapshot_blade :: "world \<Rightarrow> SupermicroX \<Rightarrow> (server option \<times> error option) go" where
  "snapshot_blade w s =
     go_bind (HardwareType w s) (\<lambda>bmcType.
     or_return_nil (Serial w s) (\<lambda>serial.
     or_return_nil (Version w s) (\<lambda>bmcVersion.
     or_return_nil (Model w s) (\<lambda>model.
     or_return_nil (Nics w s) (\<lambda>nics.
     or_return_nil (Disks w s) (\<lambda>disks.
     or_return_nil (BiosVersion w s) (\<lambda>biosVersion.
     or_return_nil (CPU w s) (\<lambda>(processor, processorCount, coreCount, threadCount).
     or_return_nil (Memory w s) (\<lambda>memory.
     or_return_nil (Status w s) (\<lambda>status.
     or_return_nil (Name w s) (\<lambda>name.
     or_return_nil (TempC w s) (\<lambda>tempC.
     or_return_nil (PowerKw w s) (\<lambda>powerKw.
     or_return_nil (PowerState w s) (\<lambda>powerState.
     or_return_nil (License w s) (\<lambda>(licenceType, licenceStatus).
     or_return_nil (Slot w s) (\<lambda>bladePosition.
     or_return_nil (ChassisSerial w s) (\<lambda>chassisSerial.
       go_return
         (Some (BladeServer
            \<lparr>Blade_Vendor = Vendor w s, Blade_BmcAddress = ip s, Blade_BmcType = bmcType,
             Blade_Serial = serial, Blade_BmcVersion = bmcVersion, Blade_Model = model,
             Blade_Nics = nics, Blade_Disks = disks, Blade_BiosVersion = biosVersion,
             Blade_Processor = processor, Blade_ProcessorCount = processorCount,
             Blade_ProcessorCoreCount = coreCount, Blade_ProcessorThreadCount = threadCount,
             Blade_Memory = memory, Blade_Status = status, Blade_Name = name,
             Blade_TempC = tempC, Blade_PowerKw = powerKw, Blade_PowerState = powerState,
             Blade_BmcLicenceType = licenceType, Blade_BmcLicenceStatus = licenceStatus,
             Blade_BladePosition = bladePosition, Blade_ChassisSerial = chassisSerial\<rparr>),
          None))))))))))))))))))"

text \<open>The branch of lines 694-755, taken otherwise.\<close>

definition snapshot_discrete :: "world \<Rightarrow> SupermicroX \<Rightarrow> (server option \<times> error option) go" where
  "snapshot_discrete w s =
     go_bind (HardwareType w s) (\<lambda>bmcType.
     or_return_nil (Serial w s) (\<lambda>serial.
     or_return_nil (Version w s) (\<lambda>bmcVersion.
     or_return_nil (Model w s) (\<lambda>model.
     or_return_nil (Nics w s) (\<lambda>nics.
     or_return_nil (Disks w s) (\<lambda>disks.
     or_return_nil (BiosVersion w s) (\<lambda>biosVersion.
     or_return_nil (CPU w s) (\<lambda>(processor, processorCount, coreCount, threadCount).
     or_return_nil (Memory w s) (\<lambda>memory.
     or_return_nil (Status w s) (\<lambda>status.
     or_return_nil (Name w s) (\<lambda>name.
     or_return_nil (TempC w s) (\<lambda>tempC.
     or_return_nil (PowerKw w s) (\<lambda>powerKw.
     or_return_nil (PowerState w s) (\<lambda>powerState.
     or_return_nil (License w s) (\<lambda>(licenceType, licenceStatus).
       go_return
         (Some (DiscreteServer
            \<lparr>Discrete_Vendor = Vendor w s, Discrete_BmcAddress = ip s,
             Discrete_BmcType = bmcType, Discrete_Serial = serial,
             Discrete_BmcVersion = bmcVersion, Discrete_Model = model, Discrete_Nics = nics,
             Discrete_Disks = disks, Discrete_BiosVersion = biosVersion,
             Discrete_Processor = processor, Discrete_ProcessorCount = processorCount,
             Discrete_ProcessorCoreCount = coreCount,
             Discrete_ProcessorThreadCount = threadCount, Discrete_Memory = memory,
             Discrete_Status = status, Discrete_Name = name, Discrete_TempC = tempC,
             Discrete_PowerKw = powerKw, Discrete_PowerState = powerState,
             Discrete_BmcLicenceType = licenceType,
             Discrete_BmcLicenceStatus = licenceStatus\<rparr>),
          None))))))))))))))))"

text \<open>
  \<^verbatim>\<open>ServerSnapshot\<close> (lines 621-759): \<^verbatim>\<open>if isBlade, _ := s.IsBlade(); isBlade\<close> drops the
  error of the probe.
\<close>

definition ServerSnapshot :: "world \<Rightarrow> SupermicroX \<Rightarrow> (server option \<times> error option) go" where
  "ServerSnapshot w s =
     go_bind (IsBlade w s) (\<lambda>(isBlade, probe_err).
       if isBlade then snapshot_blade w s else snapshot_discrete w s)"

section \<open>The SOAP codec: \<^verbatim>\<open>wrapXML\<close>\<close>










section \<open>The aggregator as a pipeline\<close>

text \<open>
  The specification describes the aggregator as a linear pipeline: the accessors are
  called in a fixed order and the first error ends the run. \<open>accessor_sequence\<close> is that
  order, each accessor reduced to the error it returns; \<open>first_error\<close> runs such a list
  from left to right, threading the events, until one member returns an error. These
  follow the words of the specification and are compared with \<open>ServerSnapshot\<close> below.
\<close>

definition error_of :: "('a \<times> error option) go \<Rightarrow> (error option) go" where
  "error_of m = go_bind m (\<lambda>(x, err). go_return err)"

fun first_error :: "(error option) go list \<Rightarrow> (error option) go" where
  "first_error [] = go_return None"
| "first_error (m # ms) =
     go_bind m (\<lambda>err. case err of Some e \<Rightarrow> go_return (Some e) | None \<Rightarrow> first_error ms)"

definition accessor_sequence :: "world \<Rightarrow> SupermicroX \<Rightarrow> bool \<Rightarrow> (error option) go list" where
  "accessor_sequence w s isBlade =
     [error_of (Serial w s), error_of (Version w s), error_of (Model w s), error_of (Nics w s),
      error_of (Disks w s), error_of (BiosVersion w s), error_of (CPU w s),
      error_of (Memory w s), error_of (Status w s), error_of (Name w s), error_of (TempC w s),
      error_of (PowerKw w s), error_of (PowerState w s), error_of (License w s)]
     @ (if isBlade then [error_of (Slot w s), error_of (ChassisSerial w s)] else [])"

text \<open>
  \<open>agrees ff res shape\<close> relates a run \<open>ff\<close> of the pipeline to a run \<open>res\<close> of the
  aggregator: both panic, or the pipeline stops at an error and the aggregator returns
  nil and that error, or the pipeline finds no error and the aggregator returns a record
  of the given shape and nil; in each case after the same events.
\<close>

definition agrees ::
  "(error option) outcome \<times> event list \<Rightarrow> (server option \<times> error option) outcome \<times> event list
     \<Rightarrow> (server \<Rightarrow> bool) \<Rightarrow> bool" where
  "agrees ff res shape =
     (case ff of
        (Panic, t') \<Rightarrow> res = (Panic, t')
      | (Return (Some e), t') \<Rightarrow> res = (Return (None, Some e), t')
      | (Return None, t') \<Rightarrow> (\<exists>srv. shape srv \<and> res = (Return (Some srv, None), t')))"

section \<open>Simulated devices for the concrete scenarios\<close>

text \<open>
  \<open>zero_IPMI\<close> is the document \<^verbatim>\<open>&supermicro.IPMI{}\<close> before the decoder fills it. The
  simulated BMC \<open>sim_bmc\<close> answers a request with the status that \<open>status\<close> gives, or
  fails in the transport with the error that it gives, and echoes the body of the
  request; its decoder looks the payload up in a table of documents, so that the table
  says which document answers which query. \<open>rack_table\<close> is a device with two nodes,
  whose own board serial is that of the second; its argument is the core count that the
  processors report.
\<close>

definition zero_IPMI :: IPMI where
  "zero_IPMI =
     \<lparr>IPMI_Bios = None, IPMI_CPU = [], IPMI_ConfigInfo = None, IPMI_Dimm = [],
      IPMI_FruInfo = None, IPMI_GenericInfo = None, IPMI_PlatformInfo = None,
      IPMI_PowerInfo = None, IPMI_NodeInfo = None, IPMI_BiosLicense = None,
      IPMI_HealthInfo = None\<rparr>"

definition docs_of :: "(string \<times> IPMI) list \<Rightarrow> string \<Rightarrow> IPMI \<times> error option" where
  "docs_of table payload =
     (case map_of table payload of
        Some doc \<Rightarrow> (doc, None)
      | None \<Rightarrow> (zero_IPMI, Some (ErrDecode payload)))"

definition sim_bmc ::
  "(event list \<Rightarrow> error option) \<Rightarrow> (Request \<Rightarrow> error + int) \<Rightarrow> (string \<times> IPMI) list
     \<Rightarrow> ChassisInfo \<Rightarrow> world" where
  "sim_bmc login status table chassis =
     \<lparr>httpLogin = login,
      url_Parse = (\<lambda>u. None),
      Jar_Cookies = (\<lambda>t u. [\<lparr>Cookie_Name = ''SID'', Cookie_Value = ''k1''\<rparr>]),
      httpClient_Do =
        (\<lambda>t req. case status req of
                    Inl e \<Rightarrow> Inl e
                  | Inr code \<Rightarrow>
                      Inr \<lparr>Response_StatusCode = code, Response_Body = Inr (Request_Body req)\<rparr>),
      xml_Unmarshal = docs_of table,
      json_Unmarshal = (\<lambda>payload. (chassis, None)),
      StandardizeProcessorName = (\<lambda>name. name),
      VendorID = ''Supermicro''\<rparr>"

definition sim_dev :: SupermicroX where
  "sim_dev = \<lparr>ip = ''10.0.0.7'', username = ''ADMIN'', password = ''ADMIN''\<rparr>"

definition always_in :: "event list \<Rightarrow> error option" where
  "always_in t = None"

definition never_in :: "event list \<Rightarrow> error option" where
  "never_in t = Some (ErrLogin ''login failed'')"

definition ok_status :: "Request \<Rightarrow> error + int" where
  "ok_status req = Inr 200"

definition not_found_status :: "Request \<Rightarrow> error + int" where
  "not_found_status req = Inr 404"

definition no_route :: "Request \<Rightarrow> error + int" where
  "no_route req = Inl (ErrTransport ''no route to host'')"

definition no_chassis :: ChassisInfo where
  "no_chassis =
     \<lparr>ChassisInfo_SerialNumber = [], ChassisInfo_Error_Code = [],
      ChassisInfo_Error_Message = [], ChassisInfo_Error_ExtendedMessage = []\<rparr>"

definition fru_doc :: "string \<Rightarrow> IPMI" where
  "fru_doc serial =
     zero_IPMI\<lparr>IPMI_FruInfo :=
       Some \<lparr>FruInfo_Board = Some \<lparr>Board_SerialNum = serial, Board_PartNum = ''X10DRFF''\<rparr>\<rparr>\<rparr>"

definition sim_node :: "int \<Rightarrow> string \<Rightarrow> string \<Rightarrow> string \<Rightarrow> Node" where
  "sim_node i serial watts temp =
     \<lparr>Node_ID = i, Node_NodeSerial = serial, Node_Power = watts, Node_SystemTemp = temp\<rparr>"

definition nodes_doc :: "Node list \<Rightarrow> IPMI" where
  "nodes_doc ns = zero_IPMI\<lparr>IPMI_NodeInfo := Some \<lparr>NodeInfo_Nodes = ns\<rparr>\<rparr>"

definition dimms_doc :: "string list \<Rightarrow> IPMI" where
  "dimms_doc sizes = zero_IPMI\<lparr>IPMI_Dimm := map (\<lambda>sz. \<lparr>Dimm_Size = sz\<rparr>) sizes\<rparr>"

definition power_doc :: "string \<Rightarrow> IPMI" where
  "power_doc status =
     zero_IPMI\<lparr>IPMI_PowerInfo := Some \<lparr>PowerInfo_Power = Some \<lparr>Power_Status = status\<rparr>\<rparr>\<rparr>"

definition rack_table :: "string \<Rightarrow> (string \<times> IPMI) list" where
  "rack_table cores =
     [(''FRU_INFO.XML=(0,0)'', fru_doc ''XYZ''),
      (''GENERIC_INFO.XML=(0,0)'',
       zero_IPMI\<lparr>IPMI_GenericInfo :=
         Some \<lparr>GenericInfo_IpmiFwVersion = ''3.88'', GenericInfo_BmcMac = ''0c:c4:7a:00:00:01'',
               GenericInfo_Generic = None\<rparr>\<rparr>),
      (''Get_PlatformInfo.XML=(0,0)'',
       zero_IPMI\<lparr>IPMI_PlatformInfo :=
         Some \<lparr>PlatformInfo_MbMacAddr1 = ''0c:c4:7a:00:00:02'',
               PlatformInfo_MbMacAddr2 = ''0c:c4:7a:00:00:03'',
               PlatformInfo_MbMacAddr3 = [], PlatformInfo_MbMacAddr4 = []\<rparr>\<rparr>),
      (''SMBIOS_INFO.XML=(0,0)'',
       zero_IPMI\<lparr>IPMI_Bios := Some \<lparr>Bios_Version = ''2.0a''\<rparr>,
                 IPMI_CPU := [\<lparr>CPU_Version = ''Xeon E5-2630'', CPU_Core = cores\<rparr>,
                              \<lparr>CPU_Version = ''Xeon E5-2630'', CPU_Core = cores\<rparr>],
                 IPMI_Dimm := [\<lparr>Dimm_Size = ''8192 MB''\<rparr>, \<lparr>Dimm_Size = ''8192 MB''\<rparr>]\<rparr>),
      (''SENSOR_INFO_FOR_SYS_HEALTH.XML=(1,ff)'',
       zero_IPMI\<lparr>IPMI_HealthInfo := Some \<lparr>HealthInfo_Health = ''1''\<rparr>\<rparr>),
      (''CONFIG_INFO.XML=(0,0)'',
       zero_IPMI\<lparr>IPMI_ConfigInfo := Some \<lparr>ConfigInfo_Hostname = Some \<lparr>Hostname_Name = ''node7''\<rparr>\<rparr>\<rparr>),
      (''Get_NodeInfoReadings.XML=(0,0)'',
       nodes_doc [sim_node 0 ''ABC'' ''500'' ''30'', sim_node 1 ''XYZ'' ''900'' ''31'']),
      (''POWER_INFO.XML=(0,0)'', power_doc ''ON''),
      (''BIOS_LINCENSE_ACTIVATE.XML=(0,0)'',
       zero_IPMI\<lparr>IPMI_BiosLicense := Some \<lparr>BiosLicense_Check = ''0''\<rparr>\<rparr>)]"


section \<open>Properties\<close>

subsection \<open>Helper lemmas\<close>

lemma run_eq: "fst p = a \<Longrightarrow> p = (a, snd p)"
  by (cases p) simp

lemma go_bind_Return: "m t = (Return a, t') \<Longrightarrow> go_bind m k t = k a t'"
  by (simp add: go_bind_def)


lemma IsBlade_loop_ex: "IsBlade_loop ns = (\<exists>node\<in>set ns. Node_NodeSerial node \<noteq> [])"
  by (induction ns) auto

lemma wrap64_wrap64_add: "wrap64 (wrap64 a + b) = wrap64 (a + b)"
  unfolding wrap64_def by (simp add: mod_simps ac_simps)

lemma wrap64_in_range:
  "- 9223372036854775808 \<le> x \<Longrightarrow> x < 9223372036854775808 \<Longrightarrow> wrap64 x = x"
  unfolding wrap64_def by simp

lemma wrap64_range: "- 9223372036854775808 \<le> wrap64 x \<and> wrap64 x < 9223372036854775808"
  unfolding wrap64_def
  using pos_mod_bound [of 18446744073709551616 "x + 9223372036854775808"]
        pos_mod_sign [of 18446744073709551616 "x + 9223372036854775808"]
  by simp

lemma wrap64_idem: "wrap64 (wrap64 x) = wrap64 x"
  using wrap64_range [of x] by (simp add: wrap64_in_range)

lemma Memory_loop_sum:
  "map (\<lambda>dimm. Atoi (TrimSuffix (Dimm_Size dimm) '' MB'')) dimms = map (\<lambda>n. (n, None)) sizes
   \<Longrightarrow> wrap64 mem = mem
   \<Longrightarrow> Memory_loop mem dimms = Inr (wrap64 (mem + sum_list sizes))"
proof (induction dimms arbitrary: mem sizes)
  case Nil
  then show ?case by simp
next
  case (Cons d ds)
  from Cons.prems(1) obtain n ns where sz: "sizes = n # ns"
    and hd: "Atoi (TrimSuffix (Dimm_Size d) '' MB'') = (n, None)"
    and tl: "map (\<lambda>dimm. Atoi (TrimSuffix (Dimm_Size dimm) '' MB'')) ds = map (\<lambda>n. (n, None)) ns"
    by (cases sizes) auto
  have "Memory_loop (wrap64 (mem + n)) ds = Inr (wrap64 (wrap64 (mem + n) + sum_list ns))"
    by (rule Cons.IH [OF tl]) (rule wrap64_idem)
  then show ?case
    using hd by (simp add: sz wrap64_wrap64_add add.assoc)
qed


subsection \<open>The accessors\<close>





text \<open>
  Claim C4. When the node-info query has returned a decoded document without error,
  \<^verbatim>\<open>IsBlade\<close> returns true exactly if some node entry has a non-empty node serial, and
  returns false with no error if the node-info sub-document is absent.
\<close>

theorem IsBlade_iff_node_serial:
  assumes "query w s ''Get_NodeInfoReadings.XML=(0,0)'' t = (Return (Some doc, None), t')"
  shows "(\<forall>ni. IPMI_NodeInfo doc = Some ni \<longrightarrow>
            IsBlade w s t =
              (Return ((\<exists>node\<in>set (NodeInfo_Nodes ni). Node_NodeSerial node \<noteq> []), None), t'))
       \<and> (IPMI_NodeInfo doc = None \<longrightarrow> IsBlade w s t = (Return (False, None), t'))"
  using assms by (simp add: IsBlade_def go_bind_Return go_return_def IsBlade_loop_ex)

theorem IsBlade_iff_node_serial_witness:
  "fst (IsBlade (sim_bmc always_in ok_status
                   [(''Get_NodeInfoReadings.XML=(0,0)'',
                     nodes_doc [sim_node 0 [] ''0'' ''0'', sim_node 1 ''XYZ'' ''900'' ''31''])] no_chassis)
          sim_dev []) = Return (True, None)
   \<and> fst (IsBlade (sim_bmc always_in ok_status
                   [(''Get_NodeInfoReadings.XML=(0,0)'', nodes_doc [sim_node 0 [] ''0'' ''0''])] no_chassis)
          sim_dev []) = Return (False, None)
   \<and> fst (IsBlade (sim_bmc always_in ok_status
                   [(''Get_NodeInfoReadings.XML=(0,0)'', zero_IPMI)] no_chassis)
          sim_dev []) = Return (False, None)"
proof -
  let ?d1 = "nodes_doc [sim_node 0 [] ''0'' ''0'', sim_node 1 ''XYZ'' ''900'' ''31'']"
  let ?d2 = "nodes_doc [sim_node 0 [] ''0'' ''0'']"
  let ?w1 = "sim_bmc always_in ok_status [(''Get_NodeInfoReadings.XML=(0,0)'', ?d1)] no_chassis"
  let ?w2 = "sim_bmc always_in ok_status [(''Get_NodeInfoReadings.XML=(0,0)'', ?d2)] no_chassis"
  let ?w3 = "sim_bmc always_in ok_status [(''Get_NodeInfoReadings.XML=(0,0)'', zero_IPMI)] no_chassis"
  have q1: "query ?w1 sim_dev ''Get_NodeInfoReadings.XML=(0,0)'' []
              = (Return (Some ?d1, None), snd (query ?w1 sim_dev ''Get_NodeInfoReadings.XML=(0,0)'' []))"
    by (rule run_eq) code_simp
  have q2: "query ?w2 sim_dev ''Get_NodeInfoReadings.XML=(0,0)'' []
              = (Return (Some ?d2, None), snd (query ?w2 sim_dev ''Get_NodeInfoReadings.XML=(0,0)'' []))"
    by (rule run_eq) code_simp
  have q3: "query ?w3 sim_dev ''Get_NodeInfoReadings.XML=(0,0)'' []
              = (Return (Some zero_IPMI, None), snd (query ?w3 sim_dev ''Get_NodeInfoReadings.XML=(0,0)'' []))"
    by (rule run_eq) code_simp
  show ?thesis
    using IsBlade_iff_node_serial [OF q1] IsBlade_iff_node_serial [OF q2]
          IsBlade_iff_node_serial [OF q3]
    by (simp add: nodes_doc_def zero_IPMI_def sim_node_def)
qed

text \<open>
  Claim C5. When the SMBIOS query has returned a decoded document without error and the
  size of every memory module, with the suffix \<^verbatim>\<open> MB\<close> stripped, parses as an integer,
  \<^verbatim>\<open>Memory\<close> returns the sum of these integers (a Go \<^verbatim>\<open>int\<close>, so taken in 64 bits) divided
  by 1024 with truncation, and no error. For the modules \<^verbatim>\<open>8192 MB\<close> and \<^verbatim>\<open>8192 MB\<close> this
  is 16.
\<close>

theorem Memory_sum_div_1024:
  assumes "query w s ''SMBIOS_INFO.XML=(0,0)'' t = (Return (Some doc, None), t')"
    and "map (\<lambda>dimm. Atoi (TrimSuffix (Dimm_Size dimm) '' MB'')) (IPMI_Dimm doc)
           = map (\<lambda>n. (n, None)) sizes"
  shows "Memory w s t = (Return (wrap64 (sum_list sizes) sdiv 1024, None), t')"
proof -
  have "Memory_loop 0 (IPMI_Dimm doc) = Inr (wrap64 (0 + sum_list sizes))"
    by (rule Memory_loop_sum [OF assms(2)]) (simp add: wrap64_def)
  then show ?thesis
    using assms(1) by (simp add: Memory_def go_bind_Return go_return_def)
qed

theorem Memory_sum_div_1024_witness:
  "fst (Memory (sim_bmc always_in ok_status
                  [(''SMBIOS_INFO.XML=(0,0)'', dimms_doc [''8192 MB'', ''8192 MB''])] no_chassis)
          sim_dev []) = Return (16, None)"
proof -
  let ?d = "dimms_doc [''8192 MB'', ''8192 MB'']"
  let ?w = "sim_bmc always_in ok_status [(''SMBIOS_INFO.XML=(0,0)'', ?d)] no_chassis"
  have q: "query ?w sim_dev ''SMBIOS_INFO.XML=(0,0)'' []
             = (Return (Some ?d, None), snd (query ?w sim_dev ''SMBIOS_INFO.XML=(0,0)'' []))"
    by (rule run_eq) code_simp
  have p: "map (\<lambda>dimm. Atoi (TrimSuffix (Dimm_Size dimm) '' MB'')) (IPMI_Dimm ?d)
             = map (\<lambda>n. (n, None)) [8192, 8192]"
    by code_simp
  show ?thesis
    using Memory_sum_div_1024 [OF q p] by (simp add: wrap64_def signed_divide_int_def)
qed



text \<open>
  Claim C10. On a device whose login fails, the query returns a nil document and the
  login error. \<^verbatim>\<open>Memory\<close> ranges over the modules of the nil document and panics, where the
  claim has it return the error; \<^verbatim>\<open>CPU\<close>, which sends the same query, checks the error
  first and returns it.
\<close>

theorem Memory_login_failure_panics:
  "Memory (sim_bmc never_in ok_status [] no_chassis) sim_dev [] = (Panic, [Login])
   \<and> CPU (sim_bmc never_in ok_status [] no_chassis) sim_dev []
       = (Return (([], 0, 0, 0), Some (ErrLogin ''login failed'')), [Login])"
  by (simp add: Memory_def CPU_def query_def go_bind_def call_httpLogin_def go_return_def
                go_panic_def sim_bmc_def never_in_def)

subsection \<open>The codecs\<close>



text \<open>
  Claim C9. Once the login has succeeded and the request has been built, a response with
  status 404 whose body was read makes \<^verbatim>\<open>get\<close> return no payload and the error
  \<^verbatim>\<open>ErrPageNotFound\<close>; a response with any other status makes it return the body and no
  error; and an error of the transport is returned as it is, with no payload.
\<close>

theorem get_page_not_found:
  assumes "httpLogin w t = None"
    and "url_Parse w (''https://'' @ ip s @ ''/'' @ endpoint) = None"
    and "url_Parse w (''https://'' @ ip s) = None"
    and "req = get_request s endpoint authentication
                 (SID_cookies (Jar_Cookies w (t @ [Login]) (''https://'' @ ip s)))"
  shows "(\<forall>resp payload.
            httpClient_Do w (t @ [Login]) req = Inr resp \<and> Response_Body resp = Inr payload \<longrightarrow>
              (Response_StatusCode resp = 404 \<longrightarrow>
                 get w s endpoint authentication t
                   = (Return (None, Some ErrPageNotFound), t @ [Login, Sent req]))
            \<and> (Response_StatusCode resp \<noteq> 404 \<longrightarrow>
                 get w s endpoint authentication t
                   = (Return (Some payload, None), t @ [Login, Sent req])))
       \<and> (\<forall>e. httpClient_Do w (t @ [Login]) req = Inl e \<longrightarrow>
              get w s endpoint authentication t = (Return (None, Some e), t @ [Login, Sent req]))"
  using assms
  by (simp add: get_def go_bind_def call_httpLogin_def session_cookies_def call_Do_def
                go_return_def Let_def)

theorem get_page_not_found_witness:
  "fst (get (sim_bmc always_in not_found_status [] no_chassis) sim_dev ''redfish/v1/Chassis/1'' True [])
     = Return (None, Some ErrPageNotFound)
   \<and> fst (get (sim_bmc always_in ok_status [] no_chassis) sim_dev ''redfish/v1/Chassis/1'' True [])
     = Return (Some [], None)
   \<and> fst (get (sim_bmc always_in no_route [] no_chassis) sim_dev ''redfish/v1/Chassis/1'' True [])
     = Return (None, Some (ErrTransport ''no route to host''))"
proof -
  let ?w1 = "sim_bmc always_in not_found_status [] no_chassis"
  let ?w2 = "sim_bmc always_in ok_status [] no_chassis"
  let ?w3 = "sim_bmc always_in no_route [] no_chassis"
  have a: "httpLogin ?w1 [] = None" "httpLogin ?w2 [] = None" "httpLogin ?w3 [] = None"
    by (simp_all add: sim_bmc_def always_in_def)
  have b: "url_Parse ?w1 u = None" "url_Parse ?w2 u = None" "url_Parse ?w3 u = None" for u
    by (simp_all add: sim_bmc_def)
  show ?thesis
    using get_page_not_found [OF a(1) b(1) b(1) refl, where endpoint = "''redfish/v1/Chassis/1''"
                                and authentication = True]
          get_page_not_found [OF a(2) b(2) b(2) refl, where endpoint = "''redfish/v1/Chassis/1''"
                                and authentication = True]
          get_page_not_found [OF a(3) b(3) b(3) refl, where endpoint = "''redfish/v1/Chassis/1''"
                                and authentication = True]
    by (simp add: sim_bmc_def not_found_status_def ok_status_def no_route_def get_request_def)
qed

subsection \<open>The aggregator\<close>

lemma agrees_step:
  assumes "\<And>x t'. agrees (first_error ms t') (k x t') shape"
  shows "agrees (first_error (error_of m # ms) t) (or_return_nil m k t) shape"
proof (cases "m t")
  case (Pair r t')
  show ?thesis
  proof (cases r)
    case Panic
    with Pair show ?thesis
      by (simp add: agrees_def or_return_nil_def error_of_def go_bind_def)
  next
    case (Return v)
    obtain x err where v: "v = (x, err)" by (cases v)
    show ?thesis
    proof (cases err)
      case None
      with Pair Return v assms [of t' x] show ?thesis
        by (simp add: or_return_nil_def error_of_def go_bind_def go_return_def)
    next
      case (Some e)
      with Pair Return v show ?thesis
        by (simp add: agrees_def or_return_nil_def error_of_def go_bind_def go_return_def)
    qed
  qed
qed

lemma agrees_done: "shape srv \<Longrightarrow> agrees (first_error [] t) (go_return (Some srv, None) t) shape"
  by (simp add: agrees_def go_return_def)

lemma snapshot_discrete_agrees:
  assumes "HardwareType w s t0 = (Return bmcType, t1)"
  shows "agrees (first_error (accessor_sequence w s False) t1) (snapshot_discrete w s t0)
           (\<lambda>srv. \<exists>d. srv = DiscreteServer d)"
  unfolding snapshot_discrete_def go_bind_Return [where m = "HardwareType w s", OF assms] accessor_sequence_def if_False
            append_Nil2 split_beta
  by (intro agrees_step agrees_done) simp

lemma snapshot_blade_agrees:
  assumes "HardwareType w s t0 = (Return bmcType, t1)"
  shows "agrees (first_error (accessor_sequence w s True) t1) (snapshot_blade w s t0)
           (\<lambda>srv. \<exists>b. srv = BladeServer b)"
  unfolding snapshot_blade_def go_bind_Return [where m = "HardwareType w s", OF assms] accessor_sequence_def if_True
            append.simps split_beta
  by (intro agrees_step agrees_done) simp

lemma agrees_error:
  "agrees ff res shape \<Longrightarrow> ff = (Return (Some e), t2) \<Longrightarrow> res = (Return (None, Some e), t2)"
  by (simp add: agrees_def)

lemma agrees_success:
  "agrees ff res shape \<Longrightarrow> ff = (Return None, t2)
   \<Longrightarrow> \<exists>srv. shape srv \<and> res = (Return (Some srv, None), t2)"
  by (simp add: agrees_def)


lemma ServerSnapshot_branch:
  "IsBlade w s t = (Return (isBlade, probe_err), t0)
   \<Longrightarrow> ServerSnapshot w s t = (if isBlade then snapshot_blade w s t0 else snapshot_discrete w s t0)"
  by (simp add: ServerSnapshot_def go_bind_Return)


text \<open>
  Claim C1. After the probe and the hardware-type lookup, \<^verbatim>\<open>ServerSnapshot\<close> runs the
  accessors in the order Serial, Version, Model, Nics, Disks, BiosVersion, CPU, Memory,
  Status, Name, TempC, PowerKw, PowerState, License, and for a blade Slot and
  ChassisSerial: when the first accessor in this order to return an error returns \<open>e\<close>,
  the aggregator returns \<open>e\<close> and no snapshot, after exactly the events up to that
  accessor, whatever the earlier accessors fetched; when none returns an error, it
  returns a snapshot and no error.
\<close>

theorem ServerSnapshot_first_error:
  assumes "IsBlade w s t = (Return (isBlade, probe_err), t0)"
    and "HardwareType w s t0 = (Return bmcType, t1)"
  shows "(\<forall>e t2. first_error (accessor_sequence w s isBlade) t1 = (Return (Some e), t2) \<longrightarrow>
            ServerSnapshot w s t = (Return (None, Some e), t2))
       \<and> (\<forall>t2. first_error (accessor_sequence w s isBlade) t1 = (Return None, t2) \<longrightarrow>
            (\<exists>srv. ServerSnapshot w s t = (Return (Some srv, None), t2)))"
proof (cases isBlade)
  case True
  have run: "ServerSnapshot w s t = snapshot_blade w s t0"
    using ServerSnapshot_branch [OF assms(1)] True by simp
  from True have b: "isBlade = True" by simp
  show ?thesis
    unfolding run b
    using agrees_error [OF snapshot_blade_agrees [OF assms(2)]]
          agrees_success [OF snapshot_blade_agrees [OF assms(2)]]
    by blast
next
  case False
  have run: "ServerSnapshot w s t = snapshot_discrete w s t0"
    using ServerSnapshot_branch [OF assms(1)] False by simp
  from False have b: "isBlade = False" by simp
  show ?thesis
    unfolding run b
    using agrees_error [OF snapshot_discrete_agrees [OF assms(2)]]
          agrees_success [OF snapshot_discrete_agrees [OF assms(2)]]
    by blast
qed

theorem ServerSnapshot_first_error_witness:
  "fst (ServerSnapshot (sim_bmc always_in ok_status (rack_table ''x'') no_chassis) sim_dev [])
     = Return (None, Some (NumError ''Atoi'' ''x'' ErrSyntax))
   \<and> (\<exists>srv. fst (ServerSnapshot (sim_bmc always_in ok_status (rack_table ''8'') no_chassis) sim_dev [])
          = Return (Some srv, None))"
proof -
  let ?w1 = "sim_bmc always_in ok_status (rack_table ''x'') no_chassis"
  let ?w2 = "sim_bmc always_in ok_status (rack_table ''8'') no_chassis"
  let ?a1 = "snd (IsBlade ?w1 sim_dev [])"
  let ?b1 = "snd (HardwareType ?w1 sim_dev ?a1)"
  let ?c1 = "snd (first_error (accessor_sequence ?w1 sim_dev True) ?b1)"
  let ?a2 = "snd (IsBlade ?w2 sim_dev [])"
  let ?b2 = "snd (HardwareType ?w2 sim_dev ?a2)"
  let ?c2 = "snd (first_error (accessor_sequence ?w2 sim_dev True) ?b2)"
  have p1: "IsBlade ?w1 sim_dev [] = (Return (True, None), ?a1)"
    by (rule run_eq) code_simp
  have h1: "HardwareType ?w1 sim_dev ?a1 = (Return ''X10DRFF'', ?b1)"
    by (rule run_eq) code_simp
  have f1: "first_error (accessor_sequence ?w1 sim_dev True) ?b1
              = (Return (Some (NumError ''Atoi'' ''x'' ErrSyntax)), ?c1)"
    by (rule run_eq) code_simp
  have p2: "IsBlade ?w2 sim_dev [] = (Return (True, None), ?a2)"
    by (rule run_eq) code_simp
  have h2: "HardwareType ?w2 sim_dev ?a2 = (Return ''X10DRFF'', ?b2)"
    by (rule run_eq) code_simp
  have f2: "first_error (accessor_sequence ?w2 sim_dev True) ?b2 = (Return None, ?c2)"
    by (rule run_eq) code_simp
  from ServerSnapshot_first_error [OF p1 h1] f1
  have r1: "ServerSnapshot ?w1 sim_dev [] = (Return (None, Some (NumError ''Atoi'' ''x'' ErrSyntax)), ?c1)"
    by blast
  from ServerSnapshot_first_error [OF p2 h2] f2
  obtain srv where r2: "ServerSnapshot ?w2 sim_dev [] = (Return (Some srv, None), ?c2)"
    by blast
  from r1 r2 show ?thesis by auto
qed



end
